theory Spec2Isabelle
  imports Main "HOL-Library.Multiset"
begin

section \<open>Values shared by the services\<close>

text \<open>
  Characters that cannot be written inside a string literal.
\<close>

definition dquote :: char where
  "dquote = CHR 0x22"

definition newline :: char where
  "newline = CHR 0x0A"

text \<open>
  The JSON values that travel through request bodies and audit details.
  \<open>JUndefined\<close> is JavaScript's \<open>undefined\<close> (an absent body field).
\<close>

datatype json =
    JUndefined
  | JNull
  | JBool bool
  | JNumber int
  | JString string
  | JArray "json list"
  | JObject "(string \<times> json) list"

text \<open>JavaScript truthiness, as used by \<open>details ? ... : undefined\<close>.\<close>

fun truthy :: "json \<Rightarrow> bool" where
  "truthy JUndefined = False"
| "truthy JNull = False"
| "truthy (JBool b) = b"
| "truthy (JNumber n) = (n \<noteq> 0)"
| "truthy (JString s) = (s \<noteq> [])"
| "truthy (JArray xs) = True"
| "truthy (JObject kvs) = True"

text \<open>
  \<open>JSON.stringify(value, null, gap)\<close> of the platform: \<open>gap = 0\<close> is the compact
  form, \<open>gap = 2\<close> the pretty-printed one. Properties whose value is \<open>undefined\<close>
  are left out of an object, an \<open>undefined\<close> array element is written \<open>null\<close>.
\<close>

fun digits :: "nat \<Rightarrow> string" where
  "digits n =
     (if n < 10 then [char_of (48 + n)]
      else digits (n div 10) @ [char_of (48 + n mod 10)])"

definition show_int :: "int \<Rightarrow> string" where
  "show_int i = (if i < 0 then CHR ''-'' # digits (nat (- i)) else digits (nat i))"

definition hex_digit :: "nat \<Rightarrow> char" where
  "hex_digit n = (if n < 10 then char_of (48 + n) else char_of (87 + n))"

definition quote_char :: "char \<Rightarrow> string" where
  "quote_char c =
     (if c = dquote then [CHR 0x5C, dquote]
      else if c = CHR 0x5C then [CHR 0x5C, CHR 0x5C]
      else if c = CHR 0x08 then [CHR 0x5C, CHR ''b'']
      else if c = CHR 0x0C then [CHR 0x5C, CHR ''f'']
      else if c = CHR 0x0A then [CHR 0x5C, CHR ''n'']
      else if c = CHR 0x0D then [CHR 0x5C, CHR ''r'']
      else if c = CHR 0x09 then [CHR 0x5C, CHR ''t'']
      else if (of_char c :: nat) < 32
        then [CHR 0x5C, CHR ''u'', CHR ''0'', CHR ''0'',
              hex_digit (of_char c div 16), hex_digit (of_char c mod 16)]
      else [c])"

definition quote_json :: "string \<Rightarrow> string" where
  "quote_json s = dquote # concat (map quote_char s) @ [dquote]"

fun join :: "string \<Rightarrow> string list \<Rightarrow> string" where
  "join sep [] = []"
| "join sep [x] = x"
| "join sep (x # y # ys) = x @ sep @ join sep (y # ys)"

definition wrap :: "nat \<Rightarrow> nat \<Rightarrow> char \<Rightarrow> char \<Rightarrow> string list \<Rightarrow> string" where
  "wrap gap depth opn cls parts =
     (if parts = [] then [opn, cls]
      else if gap = 0 then opn # join '','' parts @ [cls]
      else opn # newline # replicate (gap * Suc depth) CHR '' ''
           @ join (CHR '','' # newline # replicate (gap * Suc depth) CHR '' '') parts
           @ newline # replicate (gap * depth) CHR '' '' @ [cls])"

fun stringify :: "nat \<Rightarrow> nat \<Rightarrow> json \<Rightarrow> string"
  and stringify_elems :: "nat \<Rightarrow> nat \<Rightarrow> json list \<Rightarrow> string list"
  and stringify_props :: "nat \<Rightarrow> nat \<Rightarrow> (string \<times> json) list \<Rightarrow> string list" where
  "stringify gap depth JUndefined = ''null''"
| "stringify gap depth JNull = ''null''"
| "stringify gap depth (JBool b) = (if b then ''true'' else ''false'')"
| "stringify gap depth (JNumber n) = show_int n"
| "stringify gap depth (JString s) = quote_json s"
| "stringify gap depth (JArray xs) =
     wrap gap depth CHR ''['' CHR '']'' (stringify_elems gap (Suc depth) xs)"
| "stringify gap depth (JObject kvs) =
     wrap gap depth CHR ''{'' CHR ''}'' (stringify_props gap (Suc depth) kvs)"
| "stringify_elems gap depth [] = []"
| "stringify_elems gap depth (x # xs) =
     stringify gap depth x # stringify_elems gap depth xs"
| "stringify_props gap depth [] = []"
| "stringify_props gap depth ((k, v) # kvs) =
     (if v = JUndefined then stringify_props gap depth kvs
      else (quote_json k @ (if gap = 0 then '':'' else '': '') @ stringify gap depth v)
           # stringify_props gap depth kvs)"

text \<open>
  An \<open>async\<close> function either resolves with a value or rejects with an error; a
  rejection is what \<open>await\<close> rethrows into the caller's \<open>try\<close> block.
\<close>

datatype 'a promise = Resolved 'a | Rejected string

text \<open>The Winston logger: the diagnostic channel, a list of levelled messages.\<close>

datatype level = Info | Warn | Error

type_synonym logline = "level \<times> string"

section \<open>The data model\<close>

text \<open>
  The user object that Passport attaches to the request. The role is held as the string
  it is at run time; the enum \<open>UserRole\<close> names the six values the type allows.
\<close>

datatype UserRole = ADMIN | COMPLIANCE | STAKEHOLDER | DEVELOPER | TESTER | VIEWER

fun role_value :: "UserRole \<Rightarrow> string" where
  "role_value ADMIN = ''admin''"
| "role_value COMPLIANCE = ''compliance''"
| "role_value STAKEHOLDER = ''stakeholder''"
| "role_value DEVELOPER = ''developer''"
| "role_value TESTER = ''tester''"
| "role_value VIEWER = ''viewer''"

record user =
  username :: string
  role :: string

text \<open>The \<open>audit_logs\<close> entity. \<open>a_id\<close> and \<open>a_timestamp\<close> are generated by the store.\<close>

record AuditLog =
  a_id :: string
  a_action :: string
  a_username :: "string option"
  a_role :: "string option"
  a_details :: "string option"
  a_ip :: "string option"
  a_timestamp :: int

text \<open>
  The \<open>requirements\<close> entity. The five identifier lists are nullable columns.
  \<open>createdAt\<close> and \<open>updatedAt\<close> are maintained by the persistence layer
  (\<open>@CreateDateColumn\<close>, \<open>@UpdateDateColumn\<close>).
\<close>

record Requirement =
  r_id :: string
  title :: string
  description :: "string option"
  priority :: "string option"
  status :: string
  userStoryIds :: "string list option"
  taskIds :: "string list option"
  testCaseIds :: "string list option"
  codeCommitIds :: "string list option"
  deploymentIds :: "string list option"
  hasFailedTests :: bool
  hasDeploymentRollback :: bool
  createdBy :: string
  updatedBy :: "string option"
  createdAt :: int
  updatedAt :: int

text \<open>
  The request as the middleware and the handlers read it: \<open>req.ip\<close>,
  \<open>req.originalUrl\<close>, \<open>req.user\<close>, \<open>req.params.id\<close> and the body fields.
  The identifier lists of the body are given at their declared type (\<open>None\<close> is an
  absent field); the two flags are raw JSON values because the handler tests their
  run-time type.
\<close>

record request =
  ip :: string
  originalUrl :: string
  req_user :: "user option"
  params_id :: string
  b_userStoryIds :: "string list option"
  b_taskIds :: "string list option"
  b_testCaseIds :: "string list option"
  b_codeCommitIds :: "string list option"
  b_deploymentIds :: "string list option"
  b_hasFailedTests :: json
  b_hasDeploymentRollback :: json

text \<open>
  Responses of the external systems, with the fields the normalisers read. A client's
  \<open>Rejected\<close> stands for a failed request: a network error, a non-2xx status, or a
  payload without the fields the normaliser dereferences.
\<close>

record jira_issue =
  ji_id :: string
  ji_key :: string
  ji_summary :: string
  ji_status_name :: "string option"
  ji_assignee_displayName :: "string option"

record github_commit =
  gc_sha :: string
  gc_author_name :: string
  gc_message :: string
  gc_author_date :: string
  gc_html_url :: string

record jenkins_build =
  jb_result :: "string option"
  jb_timestamp :: int

text \<open>
  Everything the code reads from outside: the storage faults, the values the store
  generates, the clock and the platform's date formatting, the random draws of the
  placeholder test results, the environment variables and the three HTTP clients (keyed
  by request path).
\<close>

record env =
  audit_error :: "string option"
  find_error :: "string option"
  save_error :: "string option"
  new_uuid :: string
  now :: int
  toISOString :: "int \<Rightarrow> string"
  random_gt_08 :: "nat \<Rightarrow> bool"
  JIRA_BASE_URL :: "string option"
  JENKINS_BASE_URL :: "string option"
  JENKINS_JOB_NAME :: "string option"
  GITHUB_REPO :: "string option"
  GITHUB_OWNER :: "string option"
  jiraClient_get :: "string \<Rightarrow> jira_issue promise"
  githubClient_get :: "string \<Rightarrow> github_commit promise"
  jenkinsClient_get :: "string \<Rightarrow> jenkins_build promise"

text \<open>
  The mutable world: the two tables, the diagnostic log and the number of
  \<open>Math.random()\<close> draws made so far.
\<close>

record state =
  audit_logs :: "AuditLog list"
  requirements :: "Requirement list"
  logger :: "logline list"
  draws :: nat

definition log_line :: "level \<Rightarrow> string \<Rightarrow> state \<Rightarrow> state" where
  "log_line lv msg s = s\<lparr>logger := logger s @ [(lv, msg)]\<rparr>"

text \<open>A template literal writes an unset environment variable as \<open>undefined\<close>.\<close>

definition tmpl :: "string option \<Rightarrow> string" where
  "tmpl v = (case v of None \<Rightarrow> ''undefined'' | Some s \<Rightarrow> s)"

section \<open>AuditLogService\<close>

text \<open>
  \<open>getRepository(AuditLog).save(...)\<close>: rejects when the store is faulty, otherwise
  appends the row with a generated id and creation timestamp.
\<close>

definition auditRepo_save ::
  "env \<Rightarrow> string \<Rightarrow> string option \<Rightarrow> string option \<Rightarrow> string option \<Rightarrow> string option
     \<Rightarrow> AuditLog list \<Rightarrow> (AuditLog list) promise" where
  "auditRepo_save e act uname rl det addr rows =
     (case audit_error e of
        Some err \<Rightarrow> Rejected err
      | None \<Rightarrow> Resolved (rows @
          [\<lparr>a_id = new_uuid e, a_action = act, a_username = uname, a_role = rl,
            a_details = det, a_ip = addr, a_timestamp = now e\<rparr>]))"

text \<open>\<open>details ? JSON.stringify(details) : undefined\<close>\<close>

definition details_text :: "json \<Rightarrow> string option" where
  "details_text details = (if truthy details then Some (stringify 0 0 details) else None)"

text \<open>
  The \<open>try\<close> blocks of the three recording operations: the durable write, then the
  line on the diagnostic channel.
\<close>

definition logAccess_try ::
  "env \<Rightarrow> user option \<Rightarrow> string \<Rightarrow> json \<Rightarrow> request option \<Rightarrow> state \<Rightarrow> unit promise \<times> state" where
  "logAccess_try e usr act details req s =
     (case auditRepo_save e act (map_option username usr) (map_option role usr)
             (details_text details) (map_option ip req) (audit_logs s) of
        Rejected err \<Rightarrow> (Rejected err, s)
      | Resolved rows \<Rightarrow>
          (Resolved (), log_line Info (''AuditLog: Access - '' @ act) (s\<lparr>audit_logs := rows\<rparr>)))"

definition logAccess ::
  "env \<Rightarrow> user option \<Rightarrow> string \<Rightarrow> json \<Rightarrow> request option \<Rightarrow> state \<Rightarrow> unit promise \<times> state" where
  "logAccess e usr act details req s =
     (case logAccess_try e usr act details req s of
        (Rejected err, s') \<Rightarrow> (Resolved (), log_line Error ''AuditLogService.logAccess error:'' s')
      | (Resolved u, s') \<Rightarrow> (Resolved u, s'))"

definition logModification_try ::
  "env \<Rightarrow> user option \<Rightarrow> string \<Rightarrow> json \<Rightarrow> request option \<Rightarrow> state \<Rightarrow> unit promise \<times> state" where
  "logModification_try e usr act details req s =
     (case auditRepo_save e act (map_option username usr) (map_option role usr)
             (details_text details) (map_option ip req) (audit_logs s) of
        Rejected err \<Rightarrow> (Rejected err, s)
      | Resolved rows \<Rightarrow>
          (Resolved (),
           log_line Info (''AuditLog: Modification - '' @ act) (s\<lparr>audit_logs := rows\<rparr>)))"

definition logModification ::
  "env \<Rightarrow> user option \<Rightarrow> string \<Rightarrow> json \<Rightarrow> request option \<Rightarrow> state \<Rightarrow> unit promise \<times> state" where
  "logModification e usr act details req s =
     (case logModification_try e usr act details req s of
        (Rejected err, s') \<Rightarrow>
          (Resolved (), log_line Error ''AuditLogService.logModification error:'' s')
      | (Resolved u, s') \<Rightarrow> (Resolved u, s'))"

definition logUnauthorizedAccess_try ::
  "env \<Rightarrow> string \<Rightarrow> string \<Rightarrow> string option \<Rightarrow> string option \<Rightarrow> state \<Rightarrow> unit promise \<times> state" where
  "logUnauthorizedAccess_try e addr url uname rl s =
     (case auditRepo_save e ''UNAUTHORIZED_ACCESS'' uname rl
             (Some (stringify 0 0 (JObject [(''url'', JString url)]))) (Some addr)
             (audit_logs s) of
        Rejected err \<Rightarrow> (Rejected err, s)
      | Resolved rows \<Rightarrow>
          (Resolved (),
           log_line Warn ''AuditLog: Unauthorized access attempt'' (s\<lparr>audit_logs := rows\<rparr>)))"

definition logUnauthorizedAccess ::
  "env \<Rightarrow> string \<Rightarrow> string \<Rightarrow> string option \<Rightarrow> string option \<Rightarrow> state \<Rightarrow> unit promise \<times> state" where
  "logUnauthorizedAccess e addr url uname rl s =
     (case logUnauthorizedAccess_try e addr url uname rl s of
        (Rejected err, s') \<Rightarrow>
          (Resolved (), log_line Error ''AuditLogService.logUnauthorizedAccess error:'' s')
      | (Resolved u, s') \<Rightarrow> (Resolved u, s'))"

text \<open>
  \<open>auditRepo.find({ order: { timestamp: 'DESC' } })\<close>: all rows, newest first. The
  store decides the order of rows with equal timestamps; here the later row comes first.
\<close>

definition auditRepo_find_desc :: "env \<Rightarrow> AuditLog list \<Rightarrow> (AuditLog list) promise" where
  "auditRepo_find_desc e rows =
     (case audit_error e of
        Some err \<Rightarrow> Rejected err
      | None \<Rightarrow> Resolved (rev (sort_key a_timestamp rows)))"

datatype export_format = Fjson | Fcsv

text \<open>\<open>s.replace(/"/g, '""')\<close>\<close>

definition double_quotes :: "string \<Rightarrow> string" where
  "double_quotes s = concat (map (\<lambda>c. if c = dquote then [dquote, dquote] else [c]) s)"

text \<open>\<open>x || ''\<close> on an optional string\<close>

definition or_empty :: "string option \<Rightarrow> string" where
  "or_empty v = (case v of None \<Rightarrow> [] | Some s \<Rightarrow> s)"

definition quoted :: "string \<Rightarrow> string" where
  "quoted s = dquote # s @ [dquote]"

definition csv_header :: string where
  "csv_header = ''id,action,username,role,details,ip,timestamp''"

definition csv_row :: "env \<Rightarrow> AuditLog \<Rightarrow> string" where
  "csv_row e lg =
     join '',''
       [quoted (a_id lg), quoted (a_action lg), quoted (or_empty (a_username lg)),
        quoted (or_empty (a_role lg)), quoted (double_quotes (or_empty (a_details lg))),
        quoted (or_empty (a_ip lg)), quoted (toISOString e (a_timestamp lg))]"

text \<open>
  A loaded entity as \<open>JSON.stringify\<close> sees it: the columns in declaration order, a
  missing nullable column as \<open>null\<close>, the date through \<open>toJSON\<close>.
\<close>

definition nullable :: "string option \<Rightarrow> json" where
  "nullable v = (case v of None \<Rightarrow> JNull | Some s \<Rightarrow> JString s)"

definition AuditLog_json :: "env \<Rightarrow> AuditLog \<Rightarrow> json" where
  "AuditLog_json e lg =
     JObject [(''id'', JString (a_id lg)), (''action'', JString (a_action lg)),
              (''username'', nullable (a_username lg)), (''role'', nullable (a_role lg)),
              (''details'', nullable (a_details lg)), (''ip'', nullable (a_ip lg)),
              (''timestamp'', JString (toISOString e (a_timestamp lg)))]"

definition exportLogs_try :: "env \<Rightarrow> export_format \<Rightarrow> state \<Rightarrow> string promise \<times> state" where
  "exportLogs_try e format s =
     (case auditRepo_find_desc e (audit_logs s) of
        Rejected err \<Rightarrow> (Rejected err, s)
      | Resolved logs \<Rightarrow>
          (if format = Fcsv
           then (Resolved (join [newline] (csv_header # map (csv_row e) logs)), s)
           else (Resolved (stringify 2 0 (JArray (map (AuditLog_json e) logs))), s)))"

definition exportLogs :: "env \<Rightarrow> export_format \<Rightarrow> state \<Rightarrow> string promise \<times> state" where
  "exportLogs e format s =
     (case exportLogs_try e format s of
        (Rejected err, s') \<Rightarrow>
          (Resolved [], log_line Error ''AuditLogService.exportLogs error:'' s')
      | (Resolved out, s') \<Rightarrow> (Resolved out, s'))"

section \<open>IntegrationService\<close>

text \<open>The normalised artifacts that the service returns.\<close>

record issue_view =
  iv_id :: string
  iv_key :: string
  iv_summary :: string
  iv_status :: "string option"
  iv_assignee :: "string option"
  iv_url :: string

record test_case_view =
  tc_id :: string
  tc_name :: string
  tc_status :: string
  tc_url :: string

record commit_view =
  cv_sha :: string
  cv_author :: string
  cv_message :: string
  cv_date :: string
  cv_url :: string

record deployment_view =
  dv_id :: string
  dv_status :: "string option"
  dv_timestamp :: int
  dv_url :: string

record test_result =
  tr_id :: string
  tr_status :: string
  tr_executedAt :: string

text \<open>
  \<open>Promise.all\<close>: the list of all results, or a rejection as soon as one of the
  promises rejects. Which rejection is reported depends on timing; the callers only log it.
\<close>

fun Promise_all :: "'a promise list \<Rightarrow> 'a list promise" where
  "Promise_all [] = Resolved []"
| "Promise_all (Rejected err # ps) = Rejected err"
| "Promise_all (Resolved x # ps) =
     (case Promise_all ps of Rejected err \<Rightarrow> Rejected err | Resolved xs \<Rightarrow> Resolved (x # xs))"

definition then_map :: "('a \<Rightarrow> 'b) \<Rightarrow> 'a promise \<Rightarrow> 'b promise" where
  "then_map f p = (case p of Rejected err \<Rightarrow> Rejected err | Resolved x \<Rightarrow> Resolved (f x))"

text \<open>
  The \<open>try ... catch\<close> that every list operation ends with: a rejection is logged and
  an empty array returned.
\<close>

definition or_empty_logged :: "string \<Rightarrow> 'a list promise \<Rightarrow> state \<Rightarrow> 'a list \<times> state" where
  "or_empty_logged msg p s =
     (case p of Rejected err \<Rightarrow> ([], log_line Error msg s) | Resolved xs \<Rightarrow> (xs, s))"

definition jira_view :: "env \<Rightarrow> jira_issue \<Rightarrow> issue_view" where
  "jira_view e d =
     \<lparr>iv_id = ji_id d, iv_key = ji_key d, iv_summary = ji_summary d,
      iv_status = ji_status_name d, iv_assignee = ji_assignee_displayName d,
      iv_url = tmpl (JIRA_BASE_URL e) @ ''/browse/'' @ ji_key d\<rparr>"

definition getUserStories_try :: "env \<Rightarrow> string list \<Rightarrow> issue_view list promise" where
  "getUserStories_try e ids =
     (if ids = [] then Resolved []
      else Promise_all
             (map (\<lambda>i. then_map (jira_view e) (jiraClient_get e (''/issue/'' @ i))) ids))"

definition getUserStories :: "env \<Rightarrow> string list \<Rightarrow> state \<Rightarrow> issue_view list \<times> state" where
  "getUserStories e ids s =
     or_empty_logged ''IntegrationService.getUserStories error:'' (getUserStories_try e ids) s"

definition getTasks_try :: "env \<Rightarrow> string list \<Rightarrow> issue_view list promise" where
  "getTasks_try e ids =
     (if ids = [] then Resolved []
      else Promise_all
             (map (\<lambda>i. then_map (jira_view e) (jiraClient_get e (''/issue/'' @ i))) ids))"

definition getTasks :: "env \<Rightarrow> string list \<Rightarrow> state \<Rightarrow> issue_view list \<times> state" where
  "getTasks e ids s =
     or_empty_logged ''IntegrationService.getTasks error:'' (getTasks_try e ids) s"

definition getTestCases_try :: "env \<Rightarrow> string list \<Rightarrow> test_case_view list promise" where
  "getTestCases_try e ids =
     (if ids = [] then Resolved []
      else Resolved
             (map (\<lambda>i. \<lparr>tc_id = i, tc_name = ''Test Case '' @ i, tc_status = ''unknown'',
                         tc_url = []\<rparr>) ids))"

definition getTestCases :: "env \<Rightarrow> string list \<Rightarrow> state \<Rightarrow> test_case_view list \<times> state" where
  "getTestCases e ids s =
     or_empty_logged ''IntegrationService.getTestCases error:'' (getTestCases_try e ids) s"

definition github_view :: "github_commit \<Rightarrow> commit_view" where
  "github_view d =
     \<lparr>cv_sha = gc_sha d, cv_author = gc_author_name d, cv_message = gc_message d,
      cv_date = gc_author_date d, cv_url = gc_html_url d\<rparr>"

definition getCodeCommits_try :: "env \<Rightarrow> string list \<Rightarrow> commit_view list promise" where
  "getCodeCommits_try e hashes =
     (if hashes = [] then Resolved []
      else Promise_all
             (map (\<lambda>h. then_map github_view
                          (githubClient_get e
                             (''/repos/'' @ tmpl (GITHUB_OWNER e) @ ''/'' @ tmpl (GITHUB_REPO e)
                              @ ''/commits/'' @ h)))
                  hashes))"

definition getCodeCommits :: "env \<Rightarrow> string list \<Rightarrow> state \<Rightarrow> commit_view list \<times> state" where
  "getCodeCommits e hashes s =
     or_empty_logged ''IntegrationService.getCodeCommits error:'' (getCodeCommits_try e hashes) s"

definition jenkins_path :: "env \<Rightarrow> string \<Rightarrow> string" where
  "jenkins_path e i = ''/job/'' @ tmpl (JENKINS_JOB_NAME e) @ ''/'' @ i @ ''/api/json''"

definition jenkins_url :: "env \<Rightarrow> string \<Rightarrow> string" where
  "jenkins_url e i =
     tmpl (JENKINS_BASE_URL e) @ ''/job/'' @ tmpl (JENKINS_JOB_NAME e) @ ''/'' @ i @ ''/''"

definition getDeployments_try :: "env \<Rightarrow> string list \<Rightarrow> deployment_view list promise" where
  "getDeployments_try e ids =
     (if ids = [] then Resolved []
      else Promise_all
             (map (\<lambda>i. then_map
                          (\<lambda>d. \<lparr>dv_id = i, dv_status = jb_result d,
                                 dv_timestamp = jb_timestamp d, dv_url = jenkins_url e i\<rparr>)
                          (jenkinsClient_get e (jenkins_path e i)))
                  ids))"

definition getDeployments :: "env \<Rightarrow> string list \<Rightarrow> state \<Rightarrow> deployment_view list \<times> state" where
  "getDeployments e ids s =
     or_empty_logged ''IntegrationService.getDeployments error:'' (getDeployments_try e ids) s"

text \<open>
  The placeholder test results: one \<open>Math.random()\<close> draw per identifier, in order;
  the draw numbered \<open>n\<close> exceeds 0.8 exactly when \<open>random_gt_08 e n\<close>.
\<close>

definition getTestResults_try :: "env \<Rightarrow> string list \<Rightarrow> nat \<Rightarrow> test_result list promise" where
  "getTestResults_try e ids drawn =
     (if ids = [] then Resolved []
      else Resolved
             (map (\<lambda>(n, i). \<lparr>tr_id = i,
                              tr_status = (if random_gt_08 e n then ''failed'' else ''passed''),
                              tr_executedAt = toISOString e (now e)\<rparr>)
                  (zip [drawn ..< drawn + length ids] ids)))"

definition getTestResults :: "env \<Rightarrow> string list \<Rightarrow> state \<Rightarrow> test_result list \<times> state" where
  "getTestResults e ids s =
     or_empty_logged ''IntegrationService.getTestResults error:''
       (getTestResults_try e ids (draws s)) (s\<lparr>draws := draws s + length ids\<rparr>)"

definition deployment_status :: "string option \<Rightarrow> string option" where
  "deployment_status result = (if result = Some ''FAILURE'' then Some ''rollback'' else result)"

definition getDeploymentStatus_try :: "env \<Rightarrow> string list \<Rightarrow> deployment_view list promise" where
  "getDeploymentStatus_try e ids =
     (if ids = [] then Resolved []
      else Promise_all
             (map (\<lambda>i. then_map
                          (\<lambda>d. \<lparr>dv_id = i, dv_status = deployment_status (jb_result d),
                                 dv_timestamp = jb_timestamp d, dv_url = jenkins_url e i\<rparr>)
                          (jenkinsClient_get e (jenkins_path e i)))
                  ids))"

definition getDeploymentStatus ::
  "env \<Rightarrow> string list \<Rightarrow> state \<Rightarrow> deployment_view list \<times> state" where
  "getDeploymentStatus e ids s =
     or_empty_logged ''IntegrationService.getDeploymentStatus error:''
       (getDeploymentStatus_try e ids) s"

section \<open>Responses\<close>

record enriched_requirement =
  er_requirement :: Requirement
  userStories :: "issue_view list"
  tasks :: "issue_view list"
  testCases :: "test_case_view list"
  codeCommits :: "commit_view list"
  deployments :: "deployment_view list"

record report_row =
  rr_id :: string
  rr_title :: string
  rr_status :: string
  rr_hasFailedTests :: bool
  rr_hasDeploymentRollback :: bool
  rr_testResults :: "test_result list"
  rr_deploymentStatus :: "deployment_view list"

text \<open>
  What a request ends with: a status code with its payload, or \<open>next(error)\<close>, which
  hands the error to the central error handler.
\<close>

datatype response =
    Unauthorized_401
  | Forbidden_403
  | Internal_server_error_500
  | Not_found_404
  | Matrix_200 "enriched_requirement list"
  | Linked_200 Requirement
  | Report_200 "report_row list"
  | Flags_updated_200 Requirement
  | Next_error string

section \<open>Authentication and RBAC middleware\<close>

text \<open>
  \<open>rolePermissions\<close> is an object literal with one own property per role.
\<close>

definition rolePermissions :: "(string \<times> string list) list" where
  "rolePermissions =
     [(role_value ADMIN, [''*'']),
      (role_value COMPLIANCE, [''view'', ''export'', ''audit'']),
      (role_value STAKEHOLDER, [''view'', ''report'']),
      (role_value DEVELOPER, [''view'', ''link'', ''report'']),
      (role_value TESTER, [''view'', ''report'', ''flag'']),
      (role_value VIEWER, [''view''])]"

text \<open>
  Reading \<open>rolePermissions[key]\<close> is a JavaScript property lookup: an own property
  gives its array, a name that \<open>Object.prototype\<close> defines gives the inherited
  function or object (truthy, and without an \<open>includes\<close> method), every other key gives
  \<open>undefined\<close>.
\<close>

definition Object_prototype_names :: "string list" where
  "Object_prototype_names =
     [''constructor'', ''__defineGetter__'', ''__defineSetter__'', ''hasOwnProperty'',
      ''__lookupGetter__'', ''__lookupSetter__'', ''isPrototypeOf'',
      ''propertyIsEnumerable'', ''toString'', ''valueOf'', ''__proto__'',
      ''toLocaleString'']"

datatype property = Undefined | OwnArray "string list" | Inherited

definition rolePermissions_get :: "string \<Rightarrow> property" where
  "rolePermissions_get key =
     (case map_of rolePermissions key of
        Some perms \<Rightarrow> OwnArray perms
      | None \<Rightarrow> if key \<in> set Object_prototype_names then Inherited else Undefined)"

text \<open>A middleware either calls \<open>next()\<close> or ends the request with a response.\<close>

datatype 'r middleware_result = Next | Respond 'r

text \<open>
  Passport's \<open>req.isAuthenticated()\<close> is true exactly when \<open>req.user\<close> is set.
\<close>

definition isAuthenticated :: "request \<Rightarrow> bool" where
  "isAuthenticated req = (req_user req \<noteq> None)"

text \<open>
  \<open>ensureAuthenticated\<close> and the first branch of \<open>authorize\<close> do not await the audit
  call; its effects are shown here as completed.
\<close>

definition ensureAuthenticated ::
  "env \<Rightarrow> request \<Rightarrow> state \<Rightarrow> response middleware_result \<times> state" where
  "ensureAuthenticated e req s =
     (if isAuthenticated req then (Next, s)
      else (Respond Unauthorized_401,
            snd (logUnauthorizedAccess e (ip req) (originalUrl req) None None
                   (log_line Warn ''Unauthorized access attempt'' s))))"

definition authorize ::
  "string list \<Rightarrow> env \<Rightarrow> request \<Rightarrow> state \<Rightarrow> response middleware_result \<times> state" where
  "authorize requiredPermissions e req s =
     (case req_user req of
        None \<Rightarrow>
          (Respond Unauthorized_401,
           snd (logUnauthorizedAccess e (ip req) (originalUrl req) None None
                  (log_line Warn ''Access denied: No user in request'' s)))
      | Some usr \<Rightarrow>
          (case rolePermissions_get (role usr) of
             Inherited \<Rightarrow>
               (Respond Internal_server_error_500, log_line Error ''RBAC middleware error:'' s)
           | found \<Rightarrow>
               (let permissions = (case found of OwnArray perms \<Rightarrow> perms | _ \<Rightarrow> [])
                in if ''*'' \<in> set permissions then (Next, s)
                   else if list_all (\<lambda>perm. perm \<in> set permissions) requiredPermissions
                   then (Next, s)
                   else (Respond Forbidden_403,
                         snd (logUnauthorizedAccess e (ip req) (originalUrl req)
                                (Some (username usr)) (Some (role usr))
                                (log_line Warn ''Access denied: Insufficient permissions'' s))))))"

definition authMiddleware ::
  "env \<Rightarrow> request \<Rightarrow> state \<Rightarrow> response middleware_result \<times> state" where
  "authMiddleware e req s = ensureAuthenticated e req s"

section \<open>The traceability router\<close>

text \<open>
  The requirement repository. \<open>findOne\<close> gives the row with the identifier, if any.
  \<open>save\<close> writes the row back; as TypeORM does for an \<open>@UpdateDateColumn\<close>, a write
  that changes the row also sets \<open>updatedAt\<close> to the time of the write, and the entity
  returned carries it.
\<close>

definition requirementRepo_find :: "env \<Rightarrow> state \<Rightarrow> Requirement list promise" where
  "requirementRepo_find e s =
     (case find_error e of Some err \<Rightarrow> Rejected err | None \<Rightarrow> Resolved (requirements s))"

definition requirementRepo_findOne :: "env \<Rightarrow> string \<Rightarrow> state \<Rightarrow> Requirement option promise" where
  "requirementRepo_findOne e k s =
     (case find_error e of
        Some err \<Rightarrow> Rejected err
      | None \<Rightarrow> Resolved (find (\<lambda>r. r_id r = k) (requirements s)))"

definition requirementRepo_save ::
  "env \<Rightarrow> Requirement \<Rightarrow> state \<Rightarrow> (Requirement \<times> state) promise" where
  "requirementRepo_save e r s =
     (case save_error e of
        Some err \<Rightarrow> Rejected err
      | None \<Rightarrow>
          (case find (\<lambda>x. r_id x = r_id r) (requirements s) of
             None \<Rightarrow>
               Resolved (r\<lparr>updatedAt := now e\<rparr>,
                         s\<lparr>requirements := requirements s @ [r\<lparr>updatedAt := now e\<rparr>]\<rparr>)
           | Some old \<Rightarrow>
               if old = r then Resolved (r, s)
               else Resolved (r\<lparr>updatedAt := now e\<rparr>,
                              s\<lparr>requirements :=
                                   map (\<lambda>x. if r_id x = r_id r then r\<lparr>updatedAt := now e\<rparr> else x)
                                       (requirements s)\<rparr>)))"

text \<open>\<open>req.user?.username || 'system'\<close>\<close>

definition acting_user :: "request \<Rightarrow> string" where
  "acting_user req =
     (case req_user req of
        None \<Rightarrow> ''system''
      | Some usr \<Rightarrow> if username usr = [] then ''system'' else username usr)"

text \<open>
  \<open>ids?.length ? await fetch(ids) : []\<close>: the service is called only for a non-empty
  list.
\<close>

definition fetch_if_any ::
  "(string list \<Rightarrow> state \<Rightarrow> 'a list \<times> state) \<Rightarrow> string list option \<Rightarrow> state \<Rightarrow> 'a list \<times> state" where
  "fetch_if_any fetch ids s =
     (case ids of None \<Rightarrow> ([], s) | Some [] \<Rightarrow> ([], s) | Some (i # is) \<Rightarrow> fetch (i # is) s)"

text \<open>
  The callbacks of \<open>requirements.map(async ...)\<close> under \<open>Promise.all\<close> are run here
  one requirement after the other; none of them can reject.
\<close>

fun map_state :: "('a \<Rightarrow> 's \<Rightarrow> 'b \<times> 's) \<Rightarrow> 'a list \<Rightarrow> 's \<Rightarrow> 'b list \<times> 's" where
  "map_state f [] s = ([], s)"
| "map_state f (x # xs) s =
     (case f x s of (y, s1) \<Rightarrow> (case map_state f xs s1 of (ys, s2) \<Rightarrow> (y # ys, s2)))"

subsection \<open>GET /matrix\<close>

definition enrich :: "env \<Rightarrow> Requirement \<Rightarrow> state \<Rightarrow> enriched_requirement \<times> state" where
  "enrich e reqmt s =
     (let (us, s1) = fetch_if_any (getUserStories e) (userStoryIds reqmt) s;
          (ts, s2) = fetch_if_any (getTasks e) (taskIds reqmt) s1;
          (tcs, s3) = fetch_if_any (getTestCases e) (testCaseIds reqmt) s2;
          (ccs, s4) = fetch_if_any (getCodeCommits e) (codeCommitIds reqmt) s3;
          (ds, s5) = fetch_if_any (getDeployments e) (deploymentIds reqmt) s4
      in (\<lparr>er_requirement = reqmt, userStories = us, tasks = ts, testCases = tcs,
           codeCommits = ccs, deployments = ds\<rparr>, s5))"

definition get_matrix :: "env \<Rightarrow> request \<Rightarrow> state \<Rightarrow> response \<times> state" where
  "get_matrix e req s =
     (case requirementRepo_find e s of
        Rejected err \<Rightarrow> (Next_error err, log_line Error ''Error fetching traceability matrix:'' s)
      | Resolved reqs \<Rightarrow>
          (let (enrichedRequirements, s1) = map_state (enrich e) reqs s
           in (case logAccess e (req_user req) ''GET_TRACEABILITY_MATRIX''
                       (JObject [(''count'', JNumber (int (length reqs)))]) None s1 of
                 (Rejected err, s2) \<Rightarrow>
                   (Next_error err, log_line Error ''Error fetching traceability matrix:'' s2)
               | (Resolved u, s2) \<Rightarrow> (Matrix_200 enrichedRequirements, s2))))"

subsection \<open>POST /requirement/:id/link\<close>

text \<open>
  \<open>Array.from(new Set(xs))\<close>: a \<open>Set\<close> keeps its elements in insertion order and
  ignores the insertion of an element it already holds.
\<close>

definition Set_add :: "'a list \<Rightarrow> 'a \<Rightarrow> 'a list" where
  "Set_add elems x = (if x \<in> set elems then elems else elems @ [x])"

definition Array_from_Set :: "'a list \<Rightarrow> 'a list" where
  "Array_from_Set xs = foldl Set_add [] xs"

text \<open>\<open>Array.from(new Set([...(existing || []), ...ids]))\<close>\<close>

definition or_nil :: "'a list option \<Rightarrow> 'a list" where
  "or_nil v = (case v of None \<Rightarrow> [] | Some xs \<Rightarrow> xs)"

definition merge_ids :: "string list option \<Rightarrow> string list \<Rightarrow> string list" where
  "merge_ids existing ids = Array_from_Set (or_nil existing @ ids)"

definition link_merge :: "request \<Rightarrow> Requirement \<Rightarrow> Requirement" where
  "link_merge req requirement =
     (let r1 = (case b_userStoryIds req of None \<Rightarrow> requirement
                | Some ids \<Rightarrow> requirement\<lparr>userStoryIds := Some (merge_ids (userStoryIds requirement) ids)\<rparr>);
          r2 = (case b_taskIds req of None \<Rightarrow> r1
                | Some ids \<Rightarrow> r1\<lparr>taskIds := Some (merge_ids (taskIds r1) ids)\<rparr>);
          r3 = (case b_testCaseIds req of None \<Rightarrow> r2
                | Some ids \<Rightarrow> r2\<lparr>testCaseIds := Some (merge_ids (testCaseIds r2) ids)\<rparr>);
          r4 = (case b_codeCommitIds req of None \<Rightarrow> r3
                | Some ids \<Rightarrow> r3\<lparr>codeCommitIds := Some (merge_ids (codeCommitIds r3) ids)\<rparr>);
          r5 = (case b_deploymentIds req of None \<Rightarrow> r4
                | Some ids \<Rightarrow> r4\<lparr>deploymentIds := Some (merge_ids (deploymentIds r4) ids)\<rparr>)
      in r5\<lparr>updatedBy := Some (acting_user req)\<rparr>)"

definition ids_json :: "string list option \<Rightarrow> json" where
  "ids_json v = (case v of None \<Rightarrow> JUndefined | Some ids \<Rightarrow> JArray (map JString ids))"

definition link_details :: "request \<Rightarrow> json" where
  "link_details req =
     JObject [(''id'', JString (params_id req)),
              (''userStoryIds'', ids_json (b_userStoryIds req)),
              (''taskIds'', ids_json (b_taskIds req)),
              (''testCaseIds'', ids_json (b_testCaseIds req)),
              (''codeCommitIds'', ids_json (b_codeCommitIds req)),
              (''deploymentIds'', ids_json (b_deploymentIds req))]"

definition post_link :: "env \<Rightarrow> request \<Rightarrow> state \<Rightarrow> response \<times> state" where
  "post_link e req s =
     (case requirementRepo_findOne e (params_id req) s of
        Rejected err \<Rightarrow>
          (Next_error err, log_line Error ''Error linking artifacts to requirement:'' s)
      | Resolved None \<Rightarrow>
          (case logModification e (req_user req) ''LINK_ARTIFACTS_REQUIREMENT_NOT_FOUND''
                  (JObject [(''id'', JString (params_id req))]) None s of
             (Rejected err, s1) \<Rightarrow>
               (Next_error err, log_line Error ''Error linking artifacts to requirement:'' s1)
           | (Resolved u, s1) \<Rightarrow> (Not_found_404, s1))
      | Resolved (Some requirement) \<Rightarrow>
          (case requirementRepo_save e (link_merge req requirement) s of
             Rejected err \<Rightarrow>
               (Next_error err, log_line Error ''Error linking artifacts to requirement:'' s)
           | Resolved (saved, s1) \<Rightarrow>
               (case logModification e (req_user req) ''LINK_ARTIFACTS_TO_REQUIREMENT''
                       (link_details req) None s1 of
                  (Rejected err, s2) \<Rightarrow>
                    (Next_error err,
                     log_line Error ''Error linking artifacts to requirement:'' s2)
                | (Resolved u, s2) \<Rightarrow> (Linked_200 saved, s2))))"

subsection \<open>GET /report\<close>

definition report_row_of :: "env \<Rightarrow> Requirement \<Rightarrow> state \<Rightarrow> report_row \<times> state" where
  "report_row_of e reqmt s =
     (let (testResults, s1) = fetch_if_any (getTestResults e) (testCaseIds reqmt) s;
          (deploymentStatus, s2) = fetch_if_any (getDeploymentStatus e) (deploymentIds reqmt) s1
      in (\<lparr>rr_id = r_id reqmt, rr_title = title reqmt, rr_status = status reqmt,
           rr_hasFailedTests =
             (hasFailedTests reqmt \<or> list_ex (\<lambda>tr. tr_status tr = ''failed'') testResults),
           rr_hasDeploymentRollback =
             (hasDeploymentRollback reqmt
              \<or> list_ex (\<lambda>ds. dv_status ds = Some ''rollback'') deploymentStatus),
           rr_testResults = testResults, rr_deploymentStatus = deploymentStatus\<rparr>, s2))"

definition get_report :: "env \<Rightarrow> request \<Rightarrow> state \<Rightarrow> response \<times> state" where
  "get_report e req s =
     (case requirementRepo_find e s of
        Rejected err \<Rightarrow> (Next_error err, log_line Error ''Error generating traceability report:'' s)
      | Resolved reqs \<Rightarrow>
          (let (report, s1) = map_state (report_row_of e) reqs s
           in (case logAccess e (req_user req) ''GET_TRACEABILITY_REPORT''
                       (JObject [(''count'', JNumber (int (length reqs)))]) None s1 of
                 (Rejected err, s2) \<Rightarrow>
                   (Next_error err, log_line Error ''Error generating traceability report:'' s2)
               | (Resolved u, s2) \<Rightarrow> (Report_200 report, s2))))"

subsection \<open>PATCH /requirement/:id/flags\<close>

text \<open>\<open>if (typeof v === 'boolean') flag = v\<close>\<close>

definition flag_update :: "json \<Rightarrow> bool \<Rightarrow> bool" where
  "flag_update v stored = (case v of JBool b \<Rightarrow> b | _ \<Rightarrow> stored)"

definition flags_apply :: "request \<Rightarrow> Requirement \<Rightarrow> Requirement" where
  "flags_apply req requirement =
     requirement
       \<lparr>hasFailedTests := flag_update (b_hasFailedTests req) (hasFailedTests requirement),
        hasDeploymentRollback :=
          flag_update (b_hasDeploymentRollback req) (hasDeploymentRollback requirement),
        updatedBy := Some (acting_user req)\<rparr>"

definition patch_flags :: "env \<Rightarrow> request \<Rightarrow> state \<Rightarrow> response \<times> state" where
  "patch_flags e req s =
     (case requirementRepo_findOne e (params_id req) s of
        Rejected err \<Rightarrow> (Next_error err, log_line Error ''Error updating requirement flags:'' s)
      | Resolved None \<Rightarrow>
          (case logModification e (req_user req) ''UPDATE_FLAGS_REQUIREMENT_NOT_FOUND''
                  (JObject [(''id'', JString (params_id req))]) None s of
             (Rejected err, s1) \<Rightarrow>
               (Next_error err, log_line Error ''Error updating requirement flags:'' s1)
           | (Resolved u, s1) \<Rightarrow> (Not_found_404, s1))
      | Resolved (Some requirement) \<Rightarrow>
          (case requirementRepo_save e (flags_apply req requirement) s of
             Rejected err \<Rightarrow>
               (Next_error err, log_line Error ''Error updating requirement flags:'' s)
           | Resolved (saved, s1) \<Rightarrow>
               (case logModification e (req_user req) ''UPDATE_REQUIREMENT_FLAGS''
                       (JObject [(''id'', JString (params_id req)),
                                 (''hasFailedTests'', b_hasFailedTests req),
                                 (''hasDeploymentRollback'', b_hasDeploymentRollback req)])
                       None s1 of
                  (Rejected err, s2) \<Rightarrow>
                    (Next_error err, log_line Error ''Error updating requirement flags:'' s2)
                | (Resolved u, s2) \<Rightarrow> (Flags_updated_200 saved, s2))))"

subsection \<open>The routes as the application mounts them\<close>

text \<open>
  \<open>app.use('/api/traceability', authMiddleware, traceabilityRouter)\<close>: the
  authentication middleware, then the route's handler.
\<close>

definition mounted ::
  "(env \<Rightarrow> request \<Rightarrow> state \<Rightarrow> response \<times> state) \<Rightarrow> env \<Rightarrow> request \<Rightarrow> state \<Rightarrow> response \<times> state" where
  "mounted handler e req s =
     (case authMiddleware e req s of
        (Respond r, s1) \<Rightarrow> (r, s1)
      | (Next, s1) \<Rightarrow> handler e req s1)"

definition linkArtifacts :: "env \<Rightarrow> request \<Rightarrow> state \<Rightarrow> response \<times> state" where
  "linkArtifacts = mounted post_link"

definition generateReport :: "env \<Rightarrow> request \<Rightarrow> state \<Rightarrow> response \<times> state" where
  "generateReport = mounted get_report"

definition updateFlags :: "env \<Rightarrow> request \<Rightarrow> state \<Rightarrow> response \<times> state" where
  "updateFlags = mounted patch_flags"

definition getMatrix :: "env \<Rightarrow> request \<Rightarrow> state \<Rightarrow> response \<times> state" where
  "getMatrix = mounted get_matrix"

section \<open>Observations used by the properties\<close>




text \<open>The row of the requirements table with a given identifier.\<close>

definition stored :: "string \<Rightarrow> state \<Rightarrow> Requirement option" where
  "stored k s = find (\<lambda>r. r_id r = k) (requirements s)"

text \<open>The two flags that a report response shows, per requirement identifier.\<close>

definition report_flags :: "response \<Rightarrow> (string \<times> bool \<times> bool) list" where
  "report_flags resp =
     (case resp of
        Report_200 rows \<Rightarrow>
          map (\<lambda>row. (rr_id row, rr_hasFailedTests row, rr_hasDeploymentRollback row)) rows
      | _ \<Rightarrow> [])"

text \<open>
  A run of report requests, each with the upstream data of its own moment, and nothing
  else touching the state in between.
\<close>

fun run_reports :: "(env \<times> request) list \<Rightarrow> state \<Rightarrow> response list" where
  "run_reports [] s = []"
| "run_reports ((e, req) # calls) s =
     (case generateReport e req s of (resp, s1) \<Rightarrow> resp # run_reports calls s1)"

text \<open>The actions of the audit rows, oldest first.\<close>

definition audit_actions :: "state \<Rightarrow> string list" where
  "audit_actions s = map a_action (audit_logs s)"




text \<open>
  How a report row relates to the stored requirement it was made from: each flag is the
  stored flag or-ed with what the fetched results show, so a stored \<open>true\<close> is always
  reported.
\<close>

definition stored_flags_shown :: "Requirement \<Rightarrow> report_row \<Rightarrow> bool" where
  "stored_flags_shown r row \<longleftrightarrow>
     rr_id row = r_id r \<and>
     rr_hasFailedTests row
       = (hasFailedTests r \<or> list_ex (\<lambda>tr. tr_status tr = ''failed'') (rr_testResults row)) \<and>
     rr_hasDeploymentRollback row
       = (hasDeploymentRollback r
          \<or> list_ex (\<lambda>ds. dv_status ds = Some ''rollback'') (rr_deploymentStatus row)) \<and>
     (hasFailedTests r \<longrightarrow> rr_hasFailedTests row) \<and>
     (hasDeploymentRollback r \<longrightarrow> rr_hasDeploymentRollback row)"

section \<open>Example data\<close>

definition example_requirement :: Requirement where
  "example_requirement =
     \<lparr>r_id = ''R1'', title = ''Login'', description = None, priority = None,
      status = ''Draft'', userStoryIds = Some [''US-1'', ''US-2''], taskIds = None,
      testCaseIds = Some [''t1'', ''t2''], codeCommitIds = None,
      deploymentIds = Some [''d1'', ''d2''], hasFailedTests = False,
      hasDeploymentRollback = False, createdBy = ''alice'', updatedBy = None,
      createdAt = 100, updatedAt = 100\<rparr>"

definition example_state :: state where
  "example_state =
     \<lparr>audit_logs = [], requirements = [example_requirement], logger = [], draws = 0\<rparr>"

text \<open>
  An environment without storage faults, in which the issue tracker is unreachable, the
  build server reports one aborted and one unstable build, and every test draw passes.
\<close>

definition example_env :: env where
  "example_env =
     \<lparr>audit_error = None, find_error = None, save_error = None, new_uuid = ''u-1'',
      now = 200, toISOString = show_int, random_gt_08 = (\<lambda>n. False),
      JIRA_BASE_URL = Some ''https://jira'', JENKINS_BASE_URL = Some ''https://ci'',
      JENKINS_JOB_NAME = Some ''deploy'', GITHUB_REPO = Some ''repo'',
      GITHUB_OWNER = Some ''owner'',
      jiraClient_get = (\<lambda>path. Rejected ''ECONNREFUSED''),
      githubClient_get = (\<lambda>path. Rejected ''ECONNREFUSED''),
      jenkinsClient_get =
        (\<lambda>path. if path = ''/job/deploy/d1/api/json''
                 then Resolved \<lparr>jb_result = Some ''ABORTED'', jb_timestamp = 150\<rparr>
                 else Resolved \<lparr>jb_result = Some ''UNSTABLE'', jb_timestamp = 160\<rparr>)\<rparr>"

text \<open>The same environment at a moment when tests fail and deployments are rolled back.\<close>

definition failing_env :: env where
  "failing_env =
     example_env
       \<lparr>random_gt_08 := (\<lambda>n. True),
        jenkinsClient_get := (\<lambda>path. Resolved \<lparr>jb_result = Some ''FAILURE'', jb_timestamp = 150\<rparr>)\<rparr>"

text \<open>And at a moment when the audit store is down.\<close>

definition audit_down_env :: env where
  "audit_down_env = example_env\<lparr>audit_error := Some ''connection terminated''\<rparr>"

definition viewer :: user where
  "viewer = \<lparr>username = ''vera'', role = role_value VIEWER\<rparr>"

definition example_request :: request where
  "example_request =
     \<lparr>ip = ''10.0.0.7'', originalUrl = ''/api/traceability/requirement/R1/link'',
      req_user = Some viewer, params_id = ''R1'',
      b_userStoryIds = Some [''US-2'', ''US-3'', ''US-3''], b_taskIds = None,
      b_testCaseIds = None, b_codeCommitIds = None, b_deploymentIds = None,
      b_hasFailedTests = JUndefined, b_hasDeploymentRollback = JUndefined\<rparr>"

definition flags_request :: request where
  "flags_request =
     example_request
       \<lparr>originalUrl := ''/api/traceability/requirement/R1/flags'',
        req_user := Some \<lparr>username = ''tess'', role = role_value TESTER\<rparr>,
        b_userStoryIds := None, b_hasFailedTests := JBool True\<rparr>"


text \<open>A state in which the stored \<open>hasFailedTests\<close> flag of the requirement is set.\<close>

definition flagged_state :: state where
  "flagged_state =
     example_state\<lparr>requirements := [example_requirement\<lparr>hasFailedTests := True\<rparr>]\<rparr>"




section \<open>Access-control evaluation\<close>

lemma map_of_rolePermissions:
  "map_of rolePermissions (role_value r) =
     Some (case r of ADMIN \<Rightarrow> [''*''] | COMPLIANCE \<Rightarrow> [''view'', ''export'', ''audit'']
           | STAKEHOLDER \<Rightarrow> [''view'', ''report'']
           | DEVELOPER \<Rightarrow> [''view'', ''link'', ''report'']
           | TESTER \<Rightarrow> [''view'', ''report'', ''flag''] | VIEWER \<Rightarrow> [''view''])"
  by (cases r) (simp_all add: rolePermissions_def)

lemma authorize_own_property:
  assumes "req_user req = Some usr" and "map_of rolePermissions (role usr) = Some perms"
  shows "fst (authorize required e req s) =
           (if ''*'' \<in> set perms \<or> set required \<subseteq> set perms then Next
            else Respond Forbidden_403)"
  using assms by (auto simp: authorize_def rolePermissions_get_def list_all_iff)

text \<open>
  Claim C2. For each of the six roles, \<open>authorize\<close> lets the request through exactly
  when the role's entry in \<open>rolePermissions\<close> holds the wildcard or every required
  permission; with the wildcard it lets every required list through, whatever tokens it
  names; every other outcome for such a caller is 403. Without a user on the request the
  answer is 401, whatever is required.
\<close>

theorem authorize_grants_listed_permissions:
  "(req_user req = None \<longrightarrow> fst (authorize required e req s) = Respond Unauthorized_401) \<and>
   (req_user req = Some usr \<and> role usr = role_value r \<longrightarrow>
      (\<exists>perms. map_of rolePermissions (role_value r) = Some perms \<and>
         (fst (authorize required e req s) = Next
            \<longleftrightarrow> ''*'' \<in> set perms \<or> set required \<subseteq> set perms) \<and>
         (''*'' \<in> set perms \<longrightarrow> fst (authorize required e req s) = Next) \<and>
         (fst (authorize required e req s) \<noteq> Next
            \<longrightarrow> fst (authorize required e req s) = Respond Forbidden_403)))"
proof (intro conjI impI)
  assume "req_user req = None"
  then show "fst (authorize required e req s) = Respond Unauthorized_401"
    by (simp add: authorize_def)
next
  assume a: "req_user req = Some usr \<and> role usr = role_value r"
  obtain perms where p: "map_of rolePermissions (role_value r) = Some perms"
    using map_of_rolePermissions by blast
  with a have "fst (authorize required e req s) =
     (if ''*'' \<in> set perms \<or> set required \<subseteq> set perms then Next else Respond Forbidden_403)"
    by (simp add: authorize_own_property)
  with p show "\<exists>perms. map_of rolePermissions (role_value r) = Some perms \<and>
         (fst (authorize required e req s) = Next
            \<longleftrightarrow> ''*'' \<in> set perms \<or> set required \<subseteq> set perms) \<and>
         (''*'' \<in> set perms \<longrightarrow> fst (authorize required e req s) = Next) \<and>
         (fst (authorize required e req s) \<noteq> Next
            \<longrightarrow> fst (authorize required e req s) = Respond Forbidden_403)"
    by auto
qed

theorem authorize_grants_listed_permissions_witness:
  "req_user example_request = Some viewer \<and> role viewer = role_value VIEWER \<and>
   map_of rolePermissions (role_value VIEWER) = Some [''view''] \<and>
   fst (authorize [''view''] example_env example_request example_state) = Next \<and>
   fst (authorize [''link''] example_env example_request example_state) = Respond Forbidden_403 \<and>
   req_user (example_request\<lparr>req_user := None\<rparr>) = None \<and>
   fst (authorize [''view''] example_env (example_request\<lparr>req_user := None\<rparr>) example_state)
     = Respond Unauthorized_401"
  using authorize_grants_listed_permissions
          [of example_request "[''view'']" example_env example_state viewer VIEWER]
        authorize_grants_listed_permissions
          [of example_request "[''link'']" example_env example_state viewer VIEWER]
        authorize_grants_listed_permissions
          [of "example_request\<lparr>req_user := None\<rparr>" "[''view'']" example_env example_state
              viewer VIEWER]
  by (simp add: example_request_def viewer_def rolePermissions_def)




section \<open>Linking artifacts\<close>

lemma set_foldl_Set_add: "set (foldl Set_add acc xs) = set acc \<union> set xs"
  by (induction xs arbitrary: acc) (auto simp: Set_add_def)


lemma foldl_Set_add_filter:
  "foldl Set_add [] (filter P xs) = filter P (foldl Set_add [] xs)"
proof (induction xs rule: rev_induct)
  case Nil
  show ?case by simp
next
  case (snoc x xs)
  then show ?case
    by (auto simp: Set_add_def set_foldl_Set_add)
qed







lemma Array_from_Set_rev_remdups: "Array_from_Set xs = rev (remdups (rev xs))"
  unfolding Array_from_Set_def
proof (induction xs rule: rev_induct)
  case Nil
  show ?case by simp
next
  case (snoc x xs)
  then show ?case by (auto simp: Set_add_def)
qed


lemma logModification_result:
  "fst (logModification e u a d r s) = Resolved () \<and>
   requirements (snd (logModification e u a d r s)) = requirements s \<and>
   draws (snd (logModification e u a d r s)) = draws s"
  by (simp add: logModification_def logModification_try_def auditRepo_save_def log_line_def
        split: option.split)

lemma logAccess_result:
  "fst (logAccess e u a d r s) = Resolved () \<and>
   requirements (snd (logAccess e u a d r s)) = requirements s \<and>
   draws (snd (logAccess e u a d r s)) = draws s"
  by (simp add: logAccess_def logAccess_try_def auditRepo_save_def log_line_def
        split: option.split)

lemma logUnauthorizedAccess_result:
  "fst (logUnauthorizedAccess e a url u r s) = Resolved () \<and>
   requirements (snd (logUnauthorizedAccess e a url u r s)) = requirements s \<and>
   draws (snd (logUnauthorizedAccess e a url u r s)) = draws s"
  by (simp add: logUnauthorizedAccess_def logUnauthorizedAccess_try_def auditRepo_save_def
        log_line_def split: option.split)

lemma logModification_cases:
  obtains s' where "logModification e u a d r s = (Resolved (), s')"
    and "requirements s' = requirements s" and "draws s' = draws s"
  using logModification_result [of e u a d r s]
  by (cases "logModification e u a d r s") auto

lemma logAccess_cases:
  obtains s' where "logAccess e u a d r s = (Resolved (), s')"
    and "requirements s' = requirements s" and "draws s' = draws s"
  using logAccess_result [of e u a d r s]
  by (cases "logAccess e u a d r s") auto

lemma logModification_case:
  "(case logModification e u a d r s of
      (Rejected err, s2) \<Rightarrow> f err s2 | (Resolved x, s2) \<Rightarrow> g x s2)
   = g () (snd (logModification e u a d r s))"
  by (rule logModification_cases [of e u a d r s]) simp

lemma logAccess_case:
  "(case logAccess e u a d r s of
      (Rejected err, s2) \<Rightarrow> f err s2 | (Resolved x, s2) \<Rightarrow> g x s2)
   = g () (snd (logAccess e u a d r s))"
  by (rule logAccess_cases [of e u a d r s]) simp

lemma mounted_authenticated:
  "req_user req \<noteq> None \<Longrightarrow> mounted handler e req s = handler e req s"
  by (simp add: mounted_def authMiddleware_def ensureAuthenticated_def isAuthenticated_def)

lemma find_map_replace:
  "find (\<lambda>x. r_id x = k) xs = Some old \<Longrightarrow> r_id new = k \<Longrightarrow>
     find (\<lambda>x. r_id x = k) (map (\<lambda>x. if r_id x = k then new else x) xs) = Some new"
  by (induction xs) (auto split: if_splits)

lemma filter_map_replace:
  "r_id new = k \<Longrightarrow>
     filter (\<lambda>x. r_id x \<noteq> k) (map (\<lambda>x. if r_id x = k then new else x) xs)
       = filter (\<lambda>x. r_id x \<noteq> k) xs"
  by (induction xs) auto

lemma stored_r_id: "stored k s = Some r \<Longrightarrow> r_id r = k"
  by (auto simp: stored_def find_Some_iff)

lemma requirementRepo_save_found:
  assumes "save_error e = None" and "stored (r_id r) s = Some old"
  shows "\<exists>s'. requirementRepo_save e r s
                 = Resolved (if old = r then r else r\<lparr>updatedAt := now e\<rparr>, s') \<and>
              stored (r_id r) s' = Some (if old = r then r else r\<lparr>updatedAt := now e\<rparr>) \<and>
              filter (\<lambda>x. r_id x \<noteq> r_id r) (requirements s')
                = filter (\<lambda>x. r_id x \<noteq> r_id r) (requirements s) \<and>
              audit_logs s' = audit_logs s \<and> logger s' = logger s \<and> draws s' = draws s"
  using assms
  by (auto simp: requirementRepo_save_def stored_def find_map_replace filter_map_replace)












text \<open>
  Whatever the caller's role, the link route answers 401 (no user), 404, 200 or hands an
  error on; no request to it is answered 403.
\<close>

lemma post_link_never_forbidden: "fst (post_link e req s) \<noteq> Forbidden_403"
  by (simp add: post_link_def logModification_case requirementRepo_findOne_def
        requirementRepo_save_def split: option.split)

lemma linkArtifacts_never_forbidden: "fst (linkArtifacts e req s) \<noteq> Forbidden_403"
  by (simp add: linkArtifacts_def mounted_def authMiddleware_def ensureAuthenticated_def
        post_link_never_forbidden)

text \<open>
  Claim C1 says that a link request of a caller with role \<open>viewer\<close> is refused with
  403 for the missing permission \<open>link\<close>, that no requirement is loaded or changed, and
  that one \<open>UNAUTHORIZED_ACCESS\<close> audit row with the caller's name is written. The
  route as mounted runs only the authentication middleware before the handler, so the
  request of the viewer below is served: the requirement is loaded, merged and saved, the
  answer is 200, and the only audit row is the modification. The permission check that
  would refuse it (last two conjuncts) is defined but not applied to the route.
\<close>

theorem linkArtifacts_viewer_not_refused:
  "req_user example_request = Some viewer \<and>
   map_of rolePermissions (role viewer) = Some [''view''] \<and>
   fst (linkArtifacts example_env example_request example_state)
     = Linked_200 (example_requirement
                     \<lparr>userStoryIds := Some [''US-1'', ''US-2'', ''US-3''],
                      updatedBy := Some ''vera'', updatedAt := 200\<rparr>) \<and>
   requirements (snd (linkArtifacts example_env example_request example_state))
     = [example_requirement
          \<lparr>userStoryIds := Some [''US-1'', ''US-2'', ''US-3''],
           updatedBy := Some ''vera'', updatedAt := 200\<rparr>] \<and>
   audit_actions (snd (linkArtifacts example_env example_request example_state))
     = [''LINK_ARTIFACTS_TO_REQUIREMENT''] \<and>
   fst (authorize [''link''] example_env example_request example_state)
     = Respond Forbidden_403 \<and>
   map (\<lambda>l. (a_action l, a_username l))
       (audit_logs (snd (authorize [''link''] example_env example_request example_state)))
     = [(''UNAUTHORIZED_ACCESS'', Some ''vera'')]"
  by (simp add: linkArtifacts_def mounted_def authMiddleware_def ensureAuthenticated_def
        isAuthenticated_def post_link_def requirementRepo_findOne_def requirementRepo_save_def
        link_merge_def merge_ids_def Array_from_Set_def Set_add_def or_nil_def acting_user_def
        logModification_def logModification_try_def auditRepo_save_def log_line_def
        audit_actions_def authorize_def rolePermissions_get_def rolePermissions_def
        logUnauthorizedAccess_def logUnauthorizedAccess_try_def
        example_env_def example_request_def example_state_def example_requirement_def
        viewer_def Let_def)

section \<open>Updating the flags\<close>

lemma r_id_flags_apply: "r_id (flags_apply req r) = r_id r"
  by (simp add: flags_apply_def)

lemma patch_flags_found:
  assumes "find_error e = None" and "save_error e = None"
    and "stored (params_id req) s = Some r"
  shows "\<exists>saved s'. patch_flags e req s = (Flags_updated_200 saved, s') \<and>
           stored (params_id req) s' = Some saved \<and>
           (saved = flags_apply req r \<or> saved = (flags_apply req r)\<lparr>updatedAt := now e\<rparr>) \<and>
           filter (\<lambda>x. r_id x \<noteq> params_id req) (requirements s')
             = filter (\<lambda>x. r_id x \<noteq> params_id req) (requirements s)"
proof -
  let ?r = "flags_apply req r"
  let ?saved = "if r = ?r then ?r else ?r\<lparr>updatedAt := now e\<rparr>"
  have k: "r_id ?r = params_id req"
    using assms(3) by (simp add: r_id_flags_apply stored_r_id)
  then have st: "stored (r_id ?r) s = Some r"
    using assms(3) by simp
  obtain s1 where sv: "requirementRepo_save e ?r s = Resolved (?saved, s1)"
    and st1: "stored (r_id ?r) s1 = Some ?saved"
    and fr: "filter (\<lambda>x. r_id x \<noteq> r_id ?r) (requirements s1)
                = filter (\<lambda>x. r_id x \<noteq> r_id ?r) (requirements s)"
    using requirementRepo_save_found [OF assms(2) st] by blast
  obtain s2 where lm: "logModification e (req_user req) ''UPDATE_REQUIREMENT_FLAGS''
                         (JObject [(''id'', JString (params_id req)),
                                   (''hasFailedTests'', b_hasFailedTests req),
                                   (''hasDeploymentRollback'', b_hasDeploymentRollback req)])
                         None s1 = (Resolved (), s2)"
    and rq: "requirements s2 = requirements s1"
    by (rule logModification_cases)
  have "patch_flags e req s = (Flags_updated_200 ?saved, s2)"
    using assms(1,3) sv lm
    by (simp add: patch_flags_def requirementRepo_findOne_def stored_def)
  moreover have "stored (params_id req) s2 = Some ?saved"
    using st1 rq k by (simp add: stored_def)
  moreover have "filter (\<lambda>x. r_id x \<noteq> params_id req) (requirements s2)
             = filter (\<lambda>x. r_id x \<noteq> params_id req) (requirements s)"
    using fr rq k by simp
  ultimately show ?thesis by auto
qed

text \<open>
  Claim C6, as stated, says that a flag update leaves every field other than the supplied
  flags and \<open>updatedBy\<close> unchanged. The saved row also gets a new \<open>updatedAt\<close>: here
  only \<open>hasFailedTests\<close> is supplied, and the timestamp moves from 100 to 200.
\<close>

theorem updateFlags_touches_updatedAt_counterexample:
  "b_hasDeploymentRollback flags_request = JUndefined \<and>
   b_hasFailedTests flags_request = JBool True \<and>
   map updatedAt (requirements example_state) = [100] \<and>
   map updatedAt (requirements (snd (updateFlags example_env flags_request example_state)))
     = [200]"
  by (simp add: updateFlags_def mounted_def authMiddleware_def ensureAuthenticated_def
        isAuthenticated_def patch_flags_def requirementRepo_findOne_def requirementRepo_save_def
        flags_apply_def flag_update_def acting_user_def
        logModification_def logModification_try_def auditRepo_save_def log_line_def
        example_env_def example_request_def flags_request_def example_state_def
        example_requirement_def)

text \<open>
  Claim C6, amended. A successful flag update sets exactly the flags supplied as booleans:
  a flag that is absent from the body (or not a boolean) keeps its stored value, so a call
  supplying only one flag leaves the other as it was. \<open>updatedBy\<close> becomes the acting
  user; apart from the two flags, \<open>updatedBy\<close> and the \<open>updatedAt\<close> timestamp that
  the persistence layer refreshes, the row is unchanged, and so is every other row.
\<close>

theorem updateFlags_partial_update:
  assumes "find_error e = None" and "save_error e = None"
    and "req_user req \<noteq> None"
    and "stored (params_id req) s = Some r"
  shows "\<exists>saved s'.
           updateFlags e req s = (Flags_updated_200 saved, s') \<and>
           stored (params_id req) s' = Some saved \<and>
           hasFailedTests saved
             = (case b_hasFailedTests req of JBool b \<Rightarrow> b | _ \<Rightarrow> hasFailedTests r) \<and>
           hasDeploymentRollback saved
             = (case b_hasDeploymentRollback req of JBool b \<Rightarrow> b
                | _ \<Rightarrow> hasDeploymentRollback r) \<and>
           (b_hasFailedTests req = JUndefined \<longrightarrow> hasFailedTests saved = hasFailedTests r) \<and>
           (b_hasDeploymentRollback req = JUndefined
              \<longrightarrow> hasDeploymentRollback saved = hasDeploymentRollback r) \<and>
           updatedBy saved = Some (acting_user req) \<and>
           saved\<lparr>hasFailedTests := hasFailedTests r,
                 hasDeploymentRollback := hasDeploymentRollback r,
                 updatedBy := updatedBy r, updatedAt := updatedAt r\<rparr> = r \<and>
           filter (\<lambda>x. r_id x \<noteq> params_id req) (requirements s')
             = filter (\<lambda>x. r_id x \<noteq> params_id req) (requirements s)"
proof -
  obtain saved s' where
    p: "patch_flags e req s = (Flags_updated_200 saved, s')"
    and st: "stored (params_id req) s' = Some saved"
    and sv: "saved = flags_apply req r \<or> saved = (flags_apply req r)\<lparr>updatedAt := now e\<rparr>"
    and fr: "filter (\<lambda>x. r_id x \<noteq> params_id req) (requirements s')
             = filter (\<lambda>x. r_id x \<noteq> params_id req) (requirements s)"
    using patch_flags_found [OF assms(1,2,4)] by blast
  have u: "updateFlags e req s = (Flags_updated_200 saved, s')"
    using p assms(3) by (simp add: updateFlags_def mounted_authenticated)
  have f: "hasFailedTests saved
             = (case b_hasFailedTests req of JBool b \<Rightarrow> b | _ \<Rightarrow> hasFailedTests r)"
    and d: "hasDeploymentRollback saved
             = (case b_hasDeploymentRollback req of JBool b \<Rightarrow> b
                | _ \<Rightarrow> hasDeploymentRollback r)"
    and b: "updatedBy saved = Some (acting_user req)"
    and rest: "saved\<lparr>hasFailedTests := hasFailedTests r,
                 hasDeploymentRollback := hasDeploymentRollback r,
                 updatedBy := updatedBy r, updatedAt := updatedAt r\<rparr> = r"
    using sv by (auto simp: flags_apply_def flag_update_def)
  from u st f d b rest fr show ?thesis
    by (intro exI conjI) (assumption | simp)+
qed

theorem updateFlags_partial_update_witness:
  "find_error example_env = None \<and> save_error example_env = None \<and>
   req_user flags_request \<noteq> None \<and>
   stored (params_id flags_request) example_state = Some example_requirement \<and>
   b_hasDeploymentRollback flags_request = JUndefined \<and>
   (\<exists>saved s'. updateFlags example_env flags_request example_state
                  = (Flags_updated_200 saved, s') \<and>
      hasFailedTests saved \<and>
      hasDeploymentRollback saved = hasDeploymentRollback example_requirement \<and>
      title saved = title example_requirement)"
proof -
  have h1: "find_error example_env = None" and h2: "save_error example_env = None"
    by (simp_all add: example_env_def)
  have h3: "req_user flags_request \<noteq> None"
    by (simp add: flags_request_def)
  have h4: "stored (params_id flags_request) example_state = Some example_requirement"
    by (simp add: stored_def flags_request_def example_request_def example_state_def
          example_requirement_def)
  have b: "b_hasDeploymentRollback flags_request = JUndefined"
    and c: "b_hasFailedTests flags_request = JBool True"
    by (simp_all add: flags_request_def example_request_def)
  obtain saved s' where
    u: "updateFlags example_env flags_request example_state = (Flags_updated_200 saved, s')"
    and f: "hasFailedTests saved
         = (case b_hasFailedTests flags_request of JBool b \<Rightarrow> b
            | _ \<Rightarrow> hasFailedTests example_requirement)"
    and d: "b_hasDeploymentRollback flags_request = JUndefined
         \<longrightarrow> hasDeploymentRollback saved = hasDeploymentRollback example_requirement"
    and rest: "saved\<lparr>hasFailedTests := hasFailedTests example_requirement,
                 hasDeploymentRollback := hasDeploymentRollback example_requirement,
                 updatedBy := updatedBy example_requirement,
                 updatedAt := updatedAt example_requirement\<rparr> = example_requirement"
    using updateFlags_partial_update [OF h1 h2 h3 h4] by blast
  have "title saved = title example_requirement"
    using arg_cong [OF rest, of title] by simp
  with u f d b c h1 h2 h3 h4 show ?thesis
    by (intro conjI exI) (assumption | simp)+
qed

section \<open>Reports\<close>




lemma or_empty_logged_frame:
  "requirements (snd (or_empty_logged msg p s)) = requirements s \<and>
   audit_logs (snd (or_empty_logged msg p s)) = audit_logs s \<and>
   set (logger s) \<subseteq> set (logger (snd (or_empty_logged msg p s)))"
  by (auto simp: or_empty_logged_def log_line_def split: promise.split)

lemma fetch_if_any_frame:
  assumes "\<And>ids s. requirements (snd (fetch ids s)) = requirements s"
  shows "requirements (snd (fetch_if_any fetch v s)) = requirements s"
  using assms by (simp add: fetch_if_any_def split: option.split list.split)

lemma getTestResults_frame: "requirements (snd (getTestResults e ids s)) = requirements s"
  by (simp add: getTestResults_def or_empty_logged_def log_line_def split: promise.split)

lemma getDeploymentStatus_frame:
  "requirements (snd (getDeploymentStatus e ids s)) = requirements s"
  by (simp add: getDeploymentStatus_def or_empty_logged_frame)

lemma report_row_of_frame: "requirements (snd (report_row_of e r s)) = requirements s"
  by (simp add: report_row_of_def split_def Let_def fetch_if_any_frame
        getTestResults_frame getDeploymentStatus_frame)

lemma report_row_of_flags:
  "rr_id (fst (report_row_of e r s)) = r_id r \<and>
   rr_hasFailedTests (fst (report_row_of e r s))
     = (hasFailedTests r
        \<or> list_ex (\<lambda>tr. tr_status tr = ''failed'') (rr_testResults (fst (report_row_of e r s)))) \<and>
   rr_hasDeploymentRollback (fst (report_row_of e r s))
     = (hasDeploymentRollback r
        \<or> list_ex (\<lambda>ds. dv_status ds = Some ''rollback'')
             (rr_deploymentStatus (fst (report_row_of e r s))))"
  by (simp add: report_row_of_def split_def Let_def)

lemma map_state_frame:
  assumes "\<And>x s. requirements (snd (f x s)) = requirements s"
  shows "requirements (snd (map_state f xs s)) = requirements s"
  using assms by (induction xs arbitrary: s) (simp_all add: split_def)

lemma map_state_list_all2:
  assumes "\<And>x s. P x (fst (f x s))"
  shows "list_all2 P xs (fst (map_state f xs s))"
  using assms by (induction xs arbitrary: s) (simp_all add: split_def)

lemma get_report_rows:
  "get_report e req s = (Report_200 rows, s') \<Longrightarrow>
     list_all2 stored_flags_shown (requirements s) rows"
proof -
  assume a: "get_report e req s = (Report_200 rows, s')"
  obtain s2 where "logAccess e (req_user req) ''GET_TRACEABILITY_REPORT''
       (JObject [(''count'', JNumber (int (length (requirements s))))]) None
       (snd (map_state (report_row_of e) (requirements s) s)) = (Resolved (), s2)"
    by (rule logAccess_cases)
  with a have "rows = fst (map_state (report_row_of e) (requirements s) s)"
    by (auto simp: get_report_def requirementRepo_find_def split_def Let_def
          split: option.splits)
  moreover have "stored_flags_shown r (fst (report_row_of e r t))" for r t
    using report_row_of_flags [of e r t] by (auto simp: stored_flags_shown_def)
  ultimately show ?thesis
    by (simp add: map_state_list_all2)
qed

lemma get_report_frame: "requirements (snd (get_report e req s)) = requirements s"
proof (cases "find_error e")
  case (Some err)
  then show ?thesis
    by (simp add: get_report_def requirementRepo_find_def log_line_def)
next
  case None
  obtain s2 where l: "logAccess e (req_user req) ''GET_TRACEABILITY_REPORT''
       (JObject [(''count'', JNumber (int (length (requirements s))))]) None
       (snd (map_state (report_row_of e) (requirements s) s)) = (Resolved (), s2)"
    and r: "requirements s2 = requirements (snd (map_state (report_row_of e) (requirements s) s))"
    by (rule logAccess_cases)
  from None l r show ?thesis
    by (simp add: get_report_def requirementRepo_find_def split_def Let_def
          map_state_frame report_row_of_frame)
qed

lemma mounted_frame:
  assumes "\<And>s. requirements (snd (handler e req s)) = requirements s"
  shows "requirements (snd (mounted handler e req s)) = requirements s"
  using assms logUnauthorizedAccess_result
  by (simp add: mounted_def authMiddleware_def ensureAuthenticated_def log_line_def)

lemma mounted_response:
  "fst (mounted handler e req s) = resp \<Longrightarrow> resp \<noteq> Unauthorized_401 \<Longrightarrow>
     mounted handler e req s = handler e req s"
  by (auto simp: mounted_def authMiddleware_def ensureAuthenticated_def split: if_splits)

lemma generateReport_frame: "requirements (snd (generateReport e req s)) = requirements s"
  by (simp add: generateReport_def mounted_frame get_report_frame)

lemma generateReport_rows:
  assumes "fst (generateReport e req s) = Report_200 rows"
  shows "list_all2 stored_flags_shown (requirements s) rows"
proof -
  have "generateReport e req s = get_report e req s"
    using assms mounted_response [of get_report e req s "Report_200 rows"]
    by (simp add: generateReport_def)
  with assms show ?thesis
    using get_report_rows [of e req s rows "snd (get_report e req s)"]
    by (metis prod.collapse)
qed

text \<open>
  Claim C3, as stated, fails: a flag that is true only because of the fetched data is not
  kept. Two report requests in a row, with nothing in between: the first, at a moment of
  failing tests and failed deployments, reports both flags true; the second, with passing
  upstream data, reports both false.
\<close>

theorem generateReport_not_monotonic_counterexample:
  "map report_flags
     (run_reports [(failing_env, example_request), (example_env, example_request)] example_state)
   = [[(''R1'', True, True)], [(''R1'', False, False)]]"
  by (simp add: generateReport_def mounted_def authMiddleware_def ensureAuthenticated_def
        isAuthenticated_def get_report_def requirementRepo_find_def report_row_of_def
        fetch_if_any_def getTestResults_def getTestResults_try_def getDeploymentStatus_def
        getDeploymentStatus_try_def or_empty_logged_def then_map_def deployment_status_def
        jenkins_path_def jenkins_url_def tmpl_def report_flags_def
        logAccess_def logAccess_try_def auditRepo_save_def log_line_def
        failing_env_def example_env_def example_request_def example_state_def
        example_requirement_def viewer_def Let_def)

text \<open>
  Claim C3, amended. Report requests never write the requirements, and every row they
  return shows each flag as the stored flag or-ed with the freshly fetched results. So
  in any run of report requests, whatever upstream data each one fetches, a requirement
  whose stored \<open>hasFailedTests\<close> (or \<open>hasDeploymentRollback\<close>) is true is reported
  true by every one of them.
\<close>

theorem generateReport_keeps_stored_flags:
  "\<forall>resp \<in> set (run_reports calls s). \<forall>rows. resp = Report_200 rows \<longrightarrow>
      list_all2 stored_flags_shown (requirements s) rows"
proof (induction calls arbitrary: s)
  case Nil
  show ?case by simp
next
  case (Cons call calls)
  obtain e req where c: "call = (e, req)"
    by (cases call)
  have here: "\<forall>rows. fst (generateReport e req s) = Report_200 rows \<longrightarrow>
      list_all2 stored_flags_shown (requirements s) rows"
    using generateReport_rows by blast
  have later: "\<forall>resp \<in> set (run_reports calls (snd (generateReport e req s))).
      \<forall>rows. resp = Report_200 rows \<longrightarrow> list_all2 stored_flags_shown (requirements s) rows"
    using Cons.IH [of "snd (generateReport e req s)"] by (simp add: generateReport_frame)
  from c here later show ?case
    by (simp add: split_def)
qed

theorem generateReport_keeps_stored_flags_witness:
  "hasFailedTests (hd (requirements flagged_state)) \<and>
   (\<exists>rows. run_reports [(example_env, example_request)] flagged_state = [Report_200 rows] \<and>
      map rr_hasFailedTests rows = [True])"
proof -
  have f: "hasFailedTests (hd (requirements flagged_state))"
    by (simp add: flagged_state_def)
  have "\<exists>rows. run_reports [(example_env, example_request)] flagged_state = [Report_200 rows]"
    by (simp add: generateReport_def mounted_def authMiddleware_def ensureAuthenticated_def
          isAuthenticated_def get_report_def requirementRepo_find_def split_def Let_def
          logAccess_def logAccess_try_def auditRepo_save_def
          example_env_def example_request_def)
  then obtain rows where
    r: "run_reports [(example_env, example_request)] flagged_state = [Report_200 rows]"
    by blast
  then have l: "list_all2 stored_flags_shown (requirements flagged_state) rows"
    using generateReport_keeps_stored_flags
            [of "[(example_env, example_request)]" flagged_state]
    by simp
  then have m: "map rr_hasFailedTests rows = [True]"
    by (auto simp: flagged_state_def list_all2_Cons1 stored_flags_shown_def)
  show ?thesis
    using f r m by (intro conjI exI [of _ rows]) assumption+
qed






section \<open>Aggregation of artifacts\<close>





lemma fetch_if_any_or_nil:
  assumes "\<And>s. fetch [] s = ([], s)"
  shows "fetch_if_any fetch v s = fetch (or_nil v) s"
  using assms by (simp add: fetch_if_any_def or_nil_def split: option.split list.split)

lemma getUserStories_nil: "getUserStories e [] s = ([], s)"
  by (simp add: getUserStories_def getUserStories_try_def or_empty_logged_def)

lemma getTasks_nil: "getTasks e [] s = ([], s)"
  by (simp add: getTasks_def getTasks_try_def or_empty_logged_def)

lemma getTestCases_nil: "getTestCases e [] s = ([], s)"
  by (simp add: getTestCases_def getTestCases_try_def or_empty_logged_def)

lemma getCodeCommits_nil: "getCodeCommits e [] s = ([], s)"
  by (simp add: getCodeCommits_def getCodeCommits_try_def or_empty_logged_def)

lemma getDeployments_nil: "getDeployments e [] s = ([], s)"
  by (simp add: getDeployments_def getDeployments_try_def or_empty_logged_def)

text \<open>The five steps of \<open>enrich\<close>, with the states in between named.\<close>

lemma enrich_steps:
  obtains s1 s2 s3 s4 s5 where
    "getUserStories e (or_nil (userStoryIds r)) s = (userStories (fst (enrich e r s)), s1)"
    "getTasks e (or_nil (taskIds r)) s1 = (tasks (fst (enrich e r s)), s2)"
    "getTestCases e (or_nil (testCaseIds r)) s2 = (testCases (fst (enrich e r s)), s3)"
    "getCodeCommits e (or_nil (codeCommitIds r)) s3 = (codeCommits (fst (enrich e r s)), s4)"
    "getDeployments e (or_nil (deploymentIds r)) s4 = (deployments (fst (enrich e r s)), s5)"
    "snd (enrich e r s) = s5"
proof -
  define s1 where "s1 = snd (getUserStories e (or_nil (userStoryIds r)) s)"
  define s2 where "s2 = snd (getTasks e (or_nil (taskIds r)) s1)"
  define s3 where "s3 = snd (getTestCases e (or_nil (testCaseIds r)) s2)"
  define s4 where "s4 = snd (getCodeCommits e (or_nil (codeCommitIds r)) s3)"
  define s5 where "s5 = snd (getDeployments e (or_nil (deploymentIds r)) s4)"
  have "enrich e r s =
     (\<lparr>er_requirement = r,
        userStories = fst (getUserStories e (or_nil (userStoryIds r)) s),
        tasks = fst (getTasks e (or_nil (taskIds r)) s1),
        testCases = fst (getTestCases e (or_nil (testCaseIds r)) s2),
        codeCommits = fst (getCodeCommits e (or_nil (codeCommitIds r)) s3),
        deployments = fst (getDeployments e (or_nil (deploymentIds r)) s4)\<rparr>, s5)"
    by (simp add: enrich_def split_def Let_def s1_def s2_def s3_def s4_def s5_def
          fetch_if_any_or_nil getUserStories_nil getTasks_nil getTestCases_nil
          getCodeCommits_nil getDeployments_nil)
  then show thesis
    using that [of s1 s2 s3 s4 s5]
    by (simp add: s1_def s2_def s3_def s4_def s5_def)
qed










section \<open>Audit recording and export\<close>

lemma post_link_audit_independent:
  "fst (post_link (e\<lparr>audit_error := a\<rparr>) req s) = fst (post_link e req s) \<and>
   requirements (snd (post_link (e\<lparr>audit_error := a\<rparr>) req s))
     = requirements (snd (post_link e req s))"
  by (simp add: post_link_def logModification_case logModification_result
        requirementRepo_findOne_def requirementRepo_save_def log_line_def
        split: option.split)

lemma patch_flags_audit_independent:
  "fst (patch_flags (e\<lparr>audit_error := a\<rparr>) req s) = fst (patch_flags e req s) \<and>
   requirements (snd (patch_flags (e\<lparr>audit_error := a\<rparr>) req s))
     = requirements (snd (patch_flags e req s))"
  by (simp add: patch_flags_def logModification_case logModification_result
        requirementRepo_findOne_def requirementRepo_save_def log_line_def
        split: option.split)

lemma jira_view_audit_independent: "jira_view (e\<lparr>audit_error := a\<rparr>) = jira_view e"
  by (simp add: fun_eq_iff jira_view_def)

lemma fetches_audit_independent:
  "getUserStories (e\<lparr>audit_error := a\<rparr>) = getUserStories e"
  "getTasks (e\<lparr>audit_error := a\<rparr>) = getTasks e"
  "getTestCases (e\<lparr>audit_error := a\<rparr>) = getTestCases e"
  "getCodeCommits (e\<lparr>audit_error := a\<rparr>) = getCodeCommits e"
  "getDeployments (e\<lparr>audit_error := a\<rparr>) = getDeployments e"
  "getTestResults (e\<lparr>audit_error := a\<rparr>) = getTestResults e"
  "getDeploymentStatus (e\<lparr>audit_error := a\<rparr>) = getDeploymentStatus e"
  by (simp_all add: fun_eq_iff getUserStories_def getUserStories_try_def
        getTasks_def getTasks_try_def getTestCases_def getTestCases_try_def
        getCodeCommits_def getCodeCommits_try_def getDeployments_def getDeployments_try_def
        getTestResults_def getTestResults_try_def
        getDeploymentStatus_def getDeploymentStatus_try_def
        jira_view_audit_independent jenkins_path_def jenkins_url_def)

lemma enrich_audit_independent: "enrich (e\<lparr>audit_error := a\<rparr>) = enrich e"
  by (simp add: fun_eq_iff enrich_def fetches_audit_independent)

lemma report_row_of_audit_independent:
  "report_row_of (e\<lparr>audit_error := a\<rparr>) = report_row_of e"
  by (simp add: fun_eq_iff report_row_of_def fetches_audit_independent)

lemma enrich_frame: "requirements (snd (enrich e r s)) = requirements s"
  by (rule enrich_steps [of e r s])
     (metis getUserStories_def getTasks_def getTestCases_def getCodeCommits_def
        getDeployments_def or_empty_logged_frame snd_conv)

lemma get_matrix_audit_independent:
  "fst (get_matrix (e\<lparr>audit_error := a\<rparr>) req s) = fst (get_matrix e req s) \<and>
   requirements (snd (get_matrix (e\<lparr>audit_error := a\<rparr>) req s))
     = requirements (snd (get_matrix e req s))"
  by (simp add: get_matrix_def logAccess_case logAccess_result split_def Let_def
        requirementRepo_find_def log_line_def enrich_audit_independent
        map_state_frame enrich_frame split: option.split)

lemma get_report_audit_independent:
  "fst (get_report (e\<lparr>audit_error := a\<rparr>) req s) = fst (get_report e req s) \<and>
   requirements (snd (get_report (e\<lparr>audit_error := a\<rparr>) req s))
     = requirements (snd (get_report e req s))"
  by (simp add: get_report_def logAccess_case logAccess_result split_def Let_def
        requirementRepo_find_def log_line_def report_row_of_audit_independent
        map_state_frame report_row_of_frame split: option.split)

lemma mounted_audit_independent:
  assumes "\<And>s. fst (h (e\<lparr>audit_error := a\<rparr>) req s) = fst (h e req s) \<and>
                requirements (snd (h (e\<lparr>audit_error := a\<rparr>) req s))
                  = requirements (snd (h e req s))"
  shows "fst (mounted h (e\<lparr>audit_error := a\<rparr>) req s) = fst (mounted h e req s) \<and>
         requirements (snd (mounted h (e\<lparr>audit_error := a\<rparr>) req s))
           = requirements (snd (mounted h e req s))"
  using assms
  by (simp add: mounted_def authMiddleware_def ensureAuthenticated_def
        logUnauthorizedAccess_result)

text \<open>
  Claim C8. The three recording operations and the export always resolve; none of them
  rejects. When the audit store fails, the error raised inside the \<open>try\<close> block is
  caught: nothing is stored, one error line goes to the diagnostic log, and the export
  returns the empty string. The primary operations are not affected by the state of the
  audit store: the response of a link, flag-update, matrix or report request, and the
  requirements it leaves stored, are the same whether the audit write fails or not.
\<close>

theorem audit_recording_never_raises:
  "fst (logAccess e usr act details rq s) = Resolved () \<and>
   fst (logModification e usr act details rq s) = Resolved () \<and>
   fst (logUnauthorizedAccess e addr url uname rl s) = Resolved () \<and>
   (\<exists>out. fst (exportLogs e fmt s) = Resolved out) \<and>
   (audit_error e = Some err \<longrightarrow>
      logAccess_try e usr act details rq s = (Rejected err, s) \<and>
      logAccess e usr act details rq s
        = (Resolved (), log_line Error ''AuditLogService.logAccess error:'' s) \<and>
      logModification_try e usr act details rq s = (Rejected err, s) \<and>
      logModification e usr act details rq s
        = (Resolved (), log_line Error ''AuditLogService.logModification error:'' s) \<and>
      logUnauthorizedAccess_try e addr url uname rl s = (Rejected err, s) \<and>
      logUnauthorizedAccess e addr url uname rl s
        = (Resolved (), log_line Error ''AuditLogService.logUnauthorizedAccess error:'' s) \<and>
      exportLogs_try e fmt s = (Rejected err, s) \<and>
      exportLogs e fmt s
        = (Resolved [], log_line Error ''AuditLogService.exportLogs error:'' s)) \<and>
   fst (linkArtifacts (e\<lparr>audit_error := a\<rparr>) req s) = fst (linkArtifacts e req s) \<and>
   requirements (snd (linkArtifacts (e\<lparr>audit_error := a\<rparr>) req s))
     = requirements (snd (linkArtifacts e req s)) \<and>
   fst (updateFlags (e\<lparr>audit_error := a\<rparr>) req s) = fst (updateFlags e req s) \<and>
   requirements (snd (updateFlags (e\<lparr>audit_error := a\<rparr>) req s))
     = requirements (snd (updateFlags e req s)) \<and>
   fst (getMatrix (e\<lparr>audit_error := a\<rparr>) req s) = fst (getMatrix e req s) \<and>
   fst (generateReport (e\<lparr>audit_error := a\<rparr>) req s) = fst (generateReport e req s)"
proof -
  have rec: "fst (logAccess e usr act details rq s) = Resolved ()"
    "fst (logModification e usr act details rq s) = Resolved ()"
    "fst (logUnauthorizedAccess e addr url uname rl s) = Resolved ()"
    by (simp_all add: logAccess_result logModification_result logUnauthorizedAccess_result)
  have ex: "\<exists>out. fst (exportLogs e fmt s) = Resolved out"
    by (simp add: exportLogs_def exportLogs_try_def auditRepo_find_desc_def
          split: option.split)
  have down: "logAccess_try e usr act details rq s = (Rejected err, s) \<and>
      logAccess e usr act details rq s
        = (Resolved (), log_line Error ''AuditLogService.logAccess error:'' s) \<and>
      logModification_try e usr act details rq s = (Rejected err, s) \<and>
      logModification e usr act details rq s
        = (Resolved (), log_line Error ''AuditLogService.logModification error:'' s) \<and>
      logUnauthorizedAccess_try e addr url uname rl s = (Rejected err, s) \<and>
      logUnauthorizedAccess e addr url uname rl s
        = (Resolved (), log_line Error ''AuditLogService.logUnauthorizedAccess error:'' s) \<and>
      exportLogs_try e fmt s = (Rejected err, s) \<and>
      exportLogs e fmt s
        = (Resolved [], log_line Error ''AuditLogService.exportLogs error:'' s)"
    if "audit_error e = Some err"
    using that
    by (simp add: logAccess_def logAccess_try_def logModification_def logModification_try_def
          logUnauthorizedAccess_def logUnauthorizedAccess_try_def exportLogs_def
          exportLogs_try_def auditRepo_save_def auditRepo_find_desc_def)
  have l: "fst (linkArtifacts (e\<lparr>audit_error := a\<rparr>) req s) = fst (linkArtifacts e req s) \<and>
      requirements (snd (linkArtifacts (e\<lparr>audit_error := a\<rparr>) req s))
        = requirements (snd (linkArtifacts e req s))"
    unfolding linkArtifacts_def
    by (rule mounted_audit_independent) (rule post_link_audit_independent)
  have u: "fst (updateFlags (e\<lparr>audit_error := a\<rparr>) req s) = fst (updateFlags e req s) \<and>
      requirements (snd (updateFlags (e\<lparr>audit_error := a\<rparr>) req s))
        = requirements (snd (updateFlags e req s))"
    unfolding updateFlags_def
    by (rule mounted_audit_independent) (rule patch_flags_audit_independent)
  have m: "fst (getMatrix (e\<lparr>audit_error := a\<rparr>) req s) = fst (getMatrix e req s)"
    unfolding getMatrix_def
    by (rule mounted_audit_independent [THEN conjunct1]) (rule get_matrix_audit_independent)
  have g: "fst (generateReport (e\<lparr>audit_error := a\<rparr>) req s) = fst (generateReport e req s)"
    unfolding generateReport_def
    by (rule mounted_audit_independent [THEN conjunct1]) (rule get_report_audit_independent)
  show ?thesis
    by (intro conjI rec ex impI [OF down] l [THEN conjunct1] l [THEN conjunct2]
          u [THEN conjunct1] u [THEN conjunct2] m g) assumption+
qed

theorem audit_recording_never_raises_witness:
  "audit_error audit_down_env = Some ''connection terminated'' \<and>
   logModification audit_down_env (Some viewer) ''LINK_ARTIFACTS_TO_REQUIREMENT''
       (link_details example_request) None example_state
     = (Resolved (),
        log_line Error ''AuditLogService.logModification error:'' example_state) \<and>
   exportLogs audit_down_env Fcsv example_state
     = (Resolved [], log_line Error ''AuditLogService.exportLogs error:'' example_state) \<and>
   fst (linkArtifacts audit_down_env example_request example_state)
     = fst (linkArtifacts example_env example_request example_state)"
proof -
  have h: "audit_error audit_down_env = Some ''connection terminated''"
    by (simp add: audit_down_env_def)
  have d: "audit_down_env = example_env\<lparr>audit_error := Some ''connection terminated''\<rparr>"
    by (simp add: audit_down_env_def)
  note T = audit_recording_never_raises
    [of audit_down_env "Some viewer" "''LINK_ARTIFACTS_TO_REQUIREMENT''"
        "link_details example_request" None example_state "''10.0.0.7''" "''/''" None None
        Fcsv "''connection terminated''" "Some ''connection terminated''"
        example_request]
  note U = audit_recording_never_raises
    [of example_env "Some viewer" "''LINK_ARTIFACTS_TO_REQUIREMENT''"
        "link_details example_request" None example_state "''10.0.0.7''" "''/''" None None
        Fcsv "''connection terminated''" "Some ''connection terminated''"
        example_request]
  have a: "logModification audit_down_env (Some viewer) ''LINK_ARTIFACTS_TO_REQUIREMENT''
       (link_details example_request) None example_state
     = (Resolved (),
        log_line Error ''AuditLogService.logModification error:'' example_state)"
    and b: "exportLogs audit_down_env Fcsv example_state
     = (Resolved [], log_line Error ''AuditLogService.exportLogs error:'' example_state)"
    using T h by simp_all
  have c: "fst (linkArtifacts audit_down_env example_request example_state)
     = fst (linkArtifacts example_env example_request example_state)"
    using U d by simp
  from h a b c show ?thesis
    by (intro conjI)
qed









end
